theory Spec2Isabelle
  imports Main "HOL-Library.AList"
begin

section \<open>Data model (types.ts)\<close>

record ContentPage =
  urlPath :: string
  title :: string
  html :: string

text \<open>
  The response body is cast to \<^verbatim>\<open>ContentApiResponse\<close> without validation, and the code
  itself guards the \<^verbatim>\<open>pages\<close> field (\<^verbatim>\<open>pages || []\<close>, \<^verbatim>\<open>pages && Array.isArray(pages)\<close>).
  The field is therefore kept as the code can meet it: missing (or otherwise falsy), an
  array whose entries are page objects or \<^verbatim>\<open>null\<close>, or a truthy value that is no array
  and cannot be spread (a number, a plain object). A missing string field is
  represented by the empty string: both are falsy in every test the code applies.
\<close>

datatype js_pages =
    PagesMissing
  | PagesArray "ContentPage option list"
  | PagesNotIterable

record ContentApiResponse =
  sitemapXml :: string
  robotTxt :: string
  pages :: js_pages

record ContentFetcherConfig =
  domain :: string
  installId :: string
  targetDirectory :: string

record SyncResult =
  success :: bool
  message :: string
  filesCreated :: "string list"
  errors :: "string list option"

text \<open>\<^verbatim>\<open>Partial<ContentFetcherConfig>\<close>: every field may be absent.\<close>

record PartialConfig =
  domain_opt :: "string option"
  installId_opt :: "string option"
  targetDirectory_opt :: "string option"

text \<open>The entries of a \<^verbatim>\<open>pages\<close> value that is an array; no entries otherwise.\<close>

definition page_items :: "ContentApiResponse \<Rightarrow> ContentPage option list" where
  "page_items c = (case pages c of PagesArray ps \<Rightarrow> ps | _ \<Rightarrow> [])"

text \<open>A response of the declared type \<^verbatim>\<open>ContentApiResponse\<close>: the pages are page objects.\<close>

definition mk_bundle :: "string \<Rightarrow> string \<Rightarrow> ContentPage list \<Rightarrow> ContentApiResponse" where
  "mk_bundle sitemap robots ps =
     \<lparr>sitemapXml = sitemap, robotTxt = robots, pages = PagesArray (map Some ps)\<rparr>"

definition emptyContent :: ContentApiResponse where
  "emptyContent = \<lparr>sitemapXml = [], robotTxt = [], pages = PagesArray []\<rparr>"

section \<open>External collaborators\<close>

text \<open>
  What the HTTP transport answers to one request: the promise of \<^verbatim>\<open>fetch\<close> rejects with a
  message, or a response arrives with a status, a status text and a body.
  The body either fails to parse as JSON or is a JSON object, of which the code reads the
  \<^verbatim>\<open>error\<close> member (on a 404) or the three content members (on success).
\<close>

datatype json_body =
    Unparseable string
  | JsonObject "string option" ContentApiResponse

datatype http_outcome =
    Rejected string
  | Response nat string json_body

text \<open>
  The world of one invocation: the answer to the k-th request sent to a URL, the outcome
  of each call into Node's \<^verbatim>\<open>fs\<close> (\<open>None\<close> is success, \<open>Some m\<close> an exception with
  message \<open>m\<close>), Node's \<^verbatim>\<open>path\<close> functions, the milliseconds the clock advances while
  files are written, and the wording of the engine's two TypeErrors: the one for a
  spread of a value that is not iterable, and the one for reading the named property of
  \<^verbatim>\<open>null\<close>. The outcome of an \<^verbatim>\<open>fs\<close> call depends on its arguments only.
\<close>

record world =
  http_get :: "string \<Rightarrow> nat \<Rightarrow> http_outcome"
  fs_access :: "string \<Rightarrow> bool"
  fs_mkdir :: "string \<Rightarrow> string option"
  fs_writeFile :: "string \<Rightarrow> string \<Rightarrow> string option"
  path_resolve :: "string \<Rightarrow> string"
  path_join :: "string \<Rightarrow> string \<Rightarrow> string"
  path_dirname :: "string \<Rightarrow> string"
  path_basename :: "string \<Rightarrow> string"
  path_relative :: "string \<Rightarrow> string \<Rightarrow> string"
  elapsed :: nat
  msg_not_iterable :: string
  msg_null_property :: "string \<Rightarrow> string"

section \<open>Strings\<close>

definition digit_char :: "nat \<Rightarrow> char" where
  "digit_char d = ''0123456789'' ! d"

function show_nat :: "nat \<Rightarrow> string" where
  "show_nat n = (if n < 10 then [digit_char n] else show_nat (n div 10) @ [digit_char (n mod 10)])"
  by pat_completeness auto
termination
  by (relation "measure id") auto

definition endsWith :: "string \<Rightarrow> string \<Rightarrow> bool" where
  "endsWith s t = (length t \<le> length s \<and> drop (length s - length t) s = t)"

section \<open>file-manager.ts\<close>

definition ensureDirectoryExists :: "world \<Rightarrow> string \<Rightarrow> string option" where
  "ensureDirectoryExists w dirPath = (if fs_access w dirPath then None else fs_mkdir w dirPath)"

definition writeFile :: "world \<Rightarrow> string \<Rightarrow> string \<Rightarrow> string option" where
  "writeFile w filePath content =
     (case ensureDirectoryExists w (path_dirname w filePath) of
        Some e \<Rightarrow> Some e
      | None \<Rightarrow> fs_writeFile w filePath content)"

section \<open>content-fetcher.ts\<close>

record ContentFetcher =
  config :: ContentFetcherConfig
  intervalId :: "nat option"
  isFirstSync :: bool

definition new_ContentFetcher :: "ContentFetcherConfig \<Rightarrow> ContentFetcher" where
  "new_ContentFetcher cfg = \<lparr>config = cfg, intervalId = None, isFirstSync = True\<rparr>"

subsection \<open>Fetching\<close>

definition response_ok :: "nat \<Rightarrow> bool" where
  "response_ok st = (200 \<le> st \<and> st \<le> 299)"

definition no_pages_sentinel :: string where
  "no_pages_sentinel = ''No generated pages to publish.''"

definition new_content_url :: "ContentFetcherConfig \<Rightarrow> string" where
  "new_content_url cfg =
     ''https://api.seotrove.com/api/v1/sdk/'' @ domain cfg @ ''/content?installId='' @ installId cfg"

definition previous_content_url :: "ContentFetcherConfig \<Rightarrow> string" where
  "previous_content_url cfg =
     ''https://api.seotrove.com/api/v1/sdk/'' @ domain cfg
       @ ''/content/previously-published?installId='' @ installId cfg"

text \<open>
  The body shared by \<^verbatim>\<open>fetchContent\<close> and \<^verbatim>\<open>fetchPreviouslyPublishedContent\<close>, which differ
  in the URL and in the prefix of the error they rethrow. \<open>Inl\<close> is the thrown message.
\<close>

definition handle_response :: "string \<Rightarrow> http_outcome \<Rightarrow> string + ContentApiResponse" where
  "handle_response prefix out =
     (case out of
        Rejected m \<Rightarrow> Inl (prefix @ m)
      | Response st txt body \<Rightarrow>
          if \<not> response_ok st then
            (if st = 404 \<and> (case body of Unparseable _ \<Rightarrow> False
                                        | JsonObject e _ \<Rightarrow> e = Some no_pages_sentinel)
             then Inr emptyContent
             else Inl (prefix @ ''API request failed: '' @ show_nat st @ '' '' @ txt))
          else
            (case body of
               Unparseable m \<Rightarrow> Inl (prefix @ m)
             | JsonObject _ data \<Rightarrow> Inr data))"

definition fetchContent :: "world \<Rightarrow> nat \<Rightarrow> ContentFetcher \<Rightarrow> string + ContentApiResponse" where
  "fetchContent w k f =
     handle_response ''Failed to fetch new content: '' (http_get w (new_content_url (config f)) k)"

definition fetchPreviouslyPublishedContent ::
    "world \<Rightarrow> nat \<Rightarrow> ContentFetcher \<Rightarrow> string + ContentApiResponse" where
  "fetchPreviouslyPublishedContent w k f =
     handle_response ''Failed to fetch previously published content: ''
       (http_get w (previous_content_url (config f)) k)"

text \<open>\<^verbatim>\<open>[...(x.pages || [])]\<close>: \<open>None\<close> when the spread throws.\<close>

definition spread_pages :: "js_pages \<Rightarrow> ContentPage option list option" where
  "spread_pages p =
     (case p of PagesMissing \<Rightarrow> Some [] | PagesArray ps \<Rightarrow> Some ps | PagesNotIterable \<Rightarrow> None)"

text \<open>The value a settled branch contributes: its bundle, or the empty one when it was rejected.\<close>

definition settled_value :: "string + ContentApiResponse \<Rightarrow> ContentApiResponse" where
  "settled_value r = (case r of Inr c \<Rightarrow> c | Inl _ \<Rightarrow> emptyContent)"

definition js_or :: "string \<Rightarrow> string \<Rightarrow> string" where
  "js_or a b = (if a \<noteq> [] then a else b)"

definition merge_content ::
    "world \<Rightarrow> ContentApiResponse \<Rightarrow> ContentApiResponse \<Rightarrow> string + ContentApiResponse" where
  "merge_content w newContent previousContent =
     (case spread_pages (pages previousContent) of
        None \<Rightarrow> Inl (''Failed to fetch all content: '' @ msg_not_iterable w)
      | Some prev \<Rightarrow>
          (case spread_pages (pages newContent) of
             None \<Rightarrow> Inl (''Failed to fetch all content: '' @ msg_not_iterable w)
           | Some new \<Rightarrow>
               Inr \<lparr>sitemapXml = js_or (sitemapXml newContent) (sitemapXml previousContent),
                    robotTxt = js_or (robotTxt newContent) (robotTxt previousContent),
                    pages = PagesArray (prev @ new)\<rparr>))"

definition fetchAllContent :: "world \<Rightarrow> ContentFetcher \<Rightarrow> string + ContentApiResponse" where
  "fetchAllContent w f =
     merge_content w (settled_value (fetchContent w 0 f))
                     (settled_value (fetchPreviouslyPublishedContent w 0 f))"

subsection \<open>Writing\<close>

text \<open>
  One guarded write of the sitemap or of robots.txt: the \<^verbatim>\<open>try\<close> pushes the name on
  \<^verbatim>\<open>filesCreated\<close>, the \<^verbatim>\<open>catch\<close> pushes a message on \<^verbatim>\<open>errors\<close>; an empty text is
  skipped. The pair is the two arrays.
\<close>

definition write_named ::
    "world \<Rightarrow> string \<Rightarrow> string \<Rightarrow> string \<Rightarrow> string list \<times> string list
       \<Rightarrow> string list \<times> string list" where
  "write_named w baseDir name text acc =
     (if text = [] then acc
      else (case writeFile w (path_join w baseDir name) text of
              None \<Rightarrow> (fst acc @ [name], snd acc)
            | Some e \<Rightarrow> (fst acc, snd acc @ [''Failed to create '' @ name @ '': '' @ e])))"

text \<open>
  The \<^verbatim>\<open>try\<close> block of one page, \<open>Inr\<close> the relative path pushed on \<^verbatim>\<open>filesCreated\<close>,
  \<open>Inl\<close> the message of the exception. The current file appends \<^verbatim>\<open>.html\<close> where it
  is missing; the earlier file takes \<^verbatim>\<open>urlPath\<close> as it is.
\<close>

definition write_page :: "world \<Rightarrow> string \<Rightarrow> string \<Rightarrow> string \<Rightarrow> string + string" where
  "write_page w baseDir path body =
     (let pageDir = path_dirname w path;
          pageFileName = path_basename w path;
          fullDir = (if pageDir = ''.'' then baseDir else path_join w baseDir pageDir)
      in case ensureDirectoryExists w fullDir of
           Some e \<Rightarrow> Inl e
         | None \<Rightarrow>
             (let filePath = path_join w fullDir pageFileName
              in case writeFile w filePath body of
                   Some e \<Rightarrow> Inl e
                 | None \<Rightarrow> Inr (path_relative w baseDir filePath)))"

definition createPage :: "world \<Rightarrow> string \<Rightarrow> ContentPage \<Rightarrow> string + string" where
  "createPage w baseDir page =
     (let p = (if \<not> endsWith (urlPath page) ''.html'' then urlPath page @ ''.html''
               else urlPath page)
      in case write_page w baseDir p (html page) of
           Inr rel \<Rightarrow> Inr rel
         | Inl e \<Rightarrow> Inl (''Failed to create page '' @ urlPath page @ '': '' @ e))"

definition createPage_earlier :: "world \<Rightarrow> string \<Rightarrow> ContentPage \<Rightarrow> string + string" where
  "createPage_earlier w baseDir page =
     (case write_page w baseDir (urlPath page) (html page) of
        Inr rel \<Rightarrow> Inr rel
      | Inl e \<Rightarrow> Inl (''Failed to create page '' @ title page @ '': '' @ e))"

text \<open>
  The loop over the pages. A \<^verbatim>\<open>null\<close> entry makes \<^verbatim>\<open>page.urlPath\<close> throw in the
  \<^verbatim>\<open>try\<close> and the message built in the \<^verbatim>\<open>catch\<close> throw again (\<^verbatim>\<open>page.urlPath\<close>, in
  the earlier file \<^verbatim>\<open>page.title\<close>), so the exception leaves the loop: the first component
  is then its message, and the two arrays are as they were at that moment.
\<close>

fun createPages ::
    "(ContentPage \<Rightarrow> string + string) \<Rightarrow> string \<Rightarrow> ContentPage option list
       \<Rightarrow> string list \<times> string list \<Rightarrow> string option \<times> string list \<times> string list" where
  "createPages step nullmsg [] acc = (None, acc)"
| "createPages step nullmsg (None # ps) acc = (Some nullmsg, acc)"
| "createPages step nullmsg (Some page # ps) acc =
     (case step page of
        Inr rel \<Rightarrow> createPages step nullmsg ps (fst acc @ [rel], snd acc)
      | Inl m \<Rightarrow> createPages step nullmsg ps (fst acc, snd acc @ [m]))"

text \<open>The outer \<^verbatim>\<open>try\<close> block up to the end of the loop.\<close>

definition createFiles_try ::
    "(world \<Rightarrow> string \<Rightarrow> ContentPage \<Rightarrow> string + string) \<Rightarrow> string \<Rightarrow> world
       \<Rightarrow> ContentFetcher \<Rightarrow> ContentApiResponse
       \<Rightarrow> string option \<times> string list \<times> string list" where
  "createFiles_try step prop w f content =
     (let baseDir = path_resolve w (targetDirectory (config f));
          acc1 = write_named w baseDir ''sitemap.xml'' (sitemapXml content) ([], []);
          acc2 = write_named w baseDir ''robots.txt'' (robotTxt content) acc1
      in case pages content of
           PagesArray ps \<Rightarrow> createPages (step w baseDir) (msg_null_property w prop) ps acc2
         | _ \<Rightarrow> (None, acc2))"

text \<open>The result built after the loop, and the one built by the outer \<^verbatim>\<open>catch\<close>.\<close>

definition createFiles_result ::
    "world \<Rightarrow> string option \<times> string list \<times> string list \<Rightarrow> SyncResult" where
  "createFiles_result w r =
     (case r of
        (None, files, errs) \<Rightarrow>
          \<lparr>success = (length errs = 0),
           message =
             (if length errs = 0
              then ''Successfully created '' @ show_nat (length files) @ '' files in ''
                     @ show_nat (elapsed w) @ ''ms''
              else ''Created '' @ show_nat (length files) @ '' files with ''
                     @ show_nat (length errs) @ '' errors in '' @ show_nat (elapsed w) @ ''ms''),
           filesCreated = files,
           errors = (if length errs > 0 then Some errs else None)\<rparr>
      | (Some e, files, errs) \<Rightarrow>
          \<lparr>success = False,
           message = ''Failed to create files: '' @ e,
           filesCreated = files,
           errors = Some [''Failed to create files: '' @ e]\<rparr>)"

definition createFiles :: "world \<Rightarrow> ContentFetcher \<Rightarrow> ContentApiResponse \<Rightarrow> SyncResult" where
  "createFiles w f content =
     createFiles_result w (createFiles_try createPage ''urlPath'' w f content)"

definition createFiles_earlier :: "world \<Rightarrow> ContentFetcher \<Rightarrow> ContentApiResponse \<Rightarrow> SyncResult" where
  "createFiles_earlier w f content =
     createFiles_result w (createFiles_try createPage_earlier ''title'' w f content)"

subsection \<open>Synchronising\<close>

definition failed_sync :: "string \<Rightarrow> SyncResult" where
  "failed_sync errorMsg =
     \<lparr>success = False, message = errorMsg, filesCreated = [], errors = Some [errorMsg]\<rparr>"

text \<open>
  The fetch step of \<^verbatim>\<open>syncContent\<close>: on the first sync the merged fetch, and when that
  throws the new content alone (a second request to the same URL); afterwards the new
  content alone.
\<close>

definition sync_fetch :: "world \<Rightarrow> ContentFetcher \<Rightarrow> string + ContentApiResponse" where
  "sync_fetch w f =
     (if isFirstSync f then
        (case fetchAllContent w f of
           Inr content \<Rightarrow> Inr content
         | Inl _ \<Rightarrow> fetchContent w 1 f)
      else fetchContent w 0 f)"

text \<open>\<^verbatim>\<open>syncContent\<close> returns its result and leaves the fetcher in the second component.\<close>

definition syncContent :: "world \<Rightarrow> ContentFetcher \<Rightarrow> SyncResult \<times> ContentFetcher" where
  "syncContent w f =
     (case sync_fetch w f of
        Inr content \<Rightarrow> (createFiles w f content, f\<lparr>isFirstSync := False\<rparr>)
      | Inl e \<Rightarrow> (failed_sync (''Content sync failed: '' @ e), f))"

definition syncNewContentOnly :: "world \<Rightarrow> ContentFetcher \<Rightarrow> SyncResult" where
  "syncNewContentOnly w f =
     (case fetchContent w 0 f of
        Inr content \<Rightarrow> createFiles w f content
      | Inl e \<Rightarrow> failed_sync (''New content sync failed: '' @ e))"

definition syncPreviousContentOnly :: "world \<Rightarrow> ContentFetcher \<Rightarrow> SyncResult" where
  "syncPreviousContentOnly w f =
     (case fetchPreviouslyPublishedContent w 0 f of
        Inr content \<Rightarrow> createFiles w f content
      | Inl e \<Rightarrow> failed_sync (''Previously published content sync failed: '' @ e))"

definition syncAllContent :: "world \<Rightarrow> ContentFetcher \<Rightarrow> SyncResult" where
  "syncAllContent w f =
     (case fetchAllContent w f of
        Inr content \<Rightarrow> createFiles w f content
      | Inl e \<Rightarrow> failed_sync (''Full content sync failed: '' @ e))"

definition updateConfig :: "PartialConfig \<Rightarrow> ContentFetcher \<Rightarrow> ContentFetcher" where
  "updateConfig newConfig f =
     f\<lparr>config :=
        \<lparr>domain = (case domain_opt newConfig of Some d \<Rightarrow> d | None \<Rightarrow> domain (config f)),
         installId = (case installId_opt newConfig of Some i \<Rightarrow> i | None \<Rightarrow> installId (config f)),
         targetDirectory = (case targetDirectory_opt newConfig of Some t \<Rightarrow> t
                            | None \<Rightarrow> targetDirectory (config f))\<rparr>\<rparr>"

definition resetFirstSyncFlag :: "ContentFetcher \<Rightarrow> ContentFetcher" where
  "resetFirstSyncFlag f = f\<lparr>isFirstSync := True\<rparr>"

definition isFirstSyncPending :: "ContentFetcher \<Rightarrow> bool" where
  "isFirstSyncPending f = isFirstSync f"

section \<open>scheduler.ts\<close>

text \<open>
  The two \<^verbatim>\<open>Map\<close>s are association lists in insertion order, as a JavaScript \<^verbatim>\<open>Map\<close>
  iterates: \<^verbatim>\<open>set\<close> on a present key keeps its place, on a new key appends.
  A timer handle is a number taken from \<open>nextTimer\<close>. Beside the fields of the class the
  state holds what the runtime holds: the handles of the live intervals, and the trace
  of the calls made into it. \<open>SyncLaunched\<close> is the call \<^verbatim>\<open>fetcher.syncContent()\<close> whose
  promise is not awaited: the attempt runs on after the caller has returned.
  \<^verbatim>\<open>legacyFetcher\<close> is a second reference to the object registered under \<open>legacyId\<close> and
  is never read; it is left out.
\<close>

datatype event =
    SetInterval nat string nat
  | ClearInterval nat
  | SyncLaunched string

record ContentScheduler =
  fetchers :: "(string \<times> ContentFetcher) list"
  schedulers :: "(string \<times> nat) list"
  legacyId :: "string option"
  isLegacyMode :: bool
  nextTimer :: nat
  timers :: "nat list"
  trace :: "event list"

definition TWENTY_FOUR_HOURS :: nat where
  "TWENTY_FOUR_HOURS = 24 * 60 * 60 * 1000"

text \<open>\<^verbatim>\<open>!id\<close> for an optional string: absent or empty.\<close>

definition falsy :: "string option \<Rightarrow> bool" where
  "falsy i = (case i of None \<Rightarrow> True | Some x \<Rightarrow> x = [])"

definition has :: "(string \<times> 'v) list \<Rightarrow> string \<Rightarrow> bool" where
  "has m k = (case map_of m k of None \<Rightarrow> False | Some _ \<Rightarrow> True)"

definition empty_scheduler :: ContentScheduler where
  "empty_scheduler =
     \<lparr>fetchers = [], schedulers = [], legacyId = None, isLegacyMode = False,
      nextTimer = 0, timers = [], trace = []\<rparr>"

definition new_ContentScheduler :: "ContentFetcher option \<Rightarrow> string option \<Rightarrow> ContentScheduler" where
  "new_ContentScheduler fetcher i =
     (case fetcher of
        Some f \<Rightarrow>
          (if \<not> falsy i
           then empty_scheduler\<lparr>legacyId := i, isLegacyMode := True,
                  fetchers := (case i of Some x \<Rightarrow> [(x, f)] | None \<Rightarrow> [])\<rparr>
           else empty_scheduler)
      | None \<Rightarrow> empty_scheduler)"

text \<open>
  An operation returns the message of the exception it throws, if any, and the state it
  leaves behind.
\<close>

definition full_config :: "ContentFetcherConfig \<Rightarrow> PartialConfig" where
  "full_config c =
     \<lparr>domain_opt = Some (domain c), installId_opt = Some (installId c),
      targetDirectory_opt = Some (targetDirectory c)\<rparr>"

definition addFetcher ::
    "string \<Rightarrow> ContentFetcherConfig \<Rightarrow> ContentScheduler \<Rightarrow> string option \<times> ContentScheduler" where
  "addFetcher i c s =
     (case map_of (fetchers s) i of
        Some f \<Rightarrow> (None, s\<lparr>fetchers := AList.update i (updateConfig (full_config c) f) (fetchers s)\<rparr>)
      | None \<Rightarrow> (None, s\<lparr>fetchers := AList.update i (new_ContentFetcher c) (fetchers s)\<rparr>))"

definition targetId :: "string option \<Rightarrow> ContentScheduler \<Rightarrow> string option" where
  "targetId i s = (if isLegacyMode s \<and> falsy i then legacyId s else i)"

definition no_id_error :: string where
  "no_id_error = ''[ContentScheduler] No fetcher ID provided and not in legacy mode''"

definition start :: "string option \<Rightarrow> ContentScheduler \<Rightarrow> string option \<times> ContentScheduler" where
  "start i s =
     (case targetId i s of
        None \<Rightarrow> (Some no_id_error, s)
      | Some t \<Rightarrow>
          if t = [] then (Some no_id_error, s)
          else (case map_of (fetchers s) t of
                  None \<Rightarrow> (Some (''[ContentScheduler] Fetcher '' @ t @ '' not found''), s)
                | Some fetcher \<Rightarrow>
                    if has (schedulers s) t then (None, s)
                    else (None,
                          s\<lparr>schedulers := AList.update t (nextTimer s) (schedulers s),
                            nextTimer := Suc (nextTimer s),
                            timers := timers s @ [nextTimer s],
                            trace := trace s @ [SetInterval (nextTimer s) t TWENTY_FOUR_HOURS,
                                                SyncLaunched t]\<rparr>)))"

definition stop :: "string option \<Rightarrow> ContentScheduler \<Rightarrow> string option \<times> ContentScheduler" where
  "stop i s =
     (case targetId i s of
        None \<Rightarrow> (Some no_id_error, s)
      | Some t \<Rightarrow>
          if t = [] then (Some no_id_error, s)
          else (case map_of (schedulers s) t of
                  Some h \<Rightarrow>
                    (None, s\<lparr>schedulers := AList.delete t (schedulers s),
                             timers := removeAll h (timers s),
                             trace := trace s @ [ClearInterval h]\<rparr>)
                | None \<Rightarrow> (None, s)))"

definition removeFetcher :: "string \<Rightarrow> ContentScheduler \<Rightarrow> string option \<times> ContentScheduler" where
  "removeFetcher i s =
     (if has (fetchers s) i then
        (case stop (Some i) s of
           (Some e, s') \<Rightarrow> (Some e, s')
         | (None, s') \<Rightarrow> (None, s'\<lparr>fetchers := AList.delete i (fetchers s')\<rparr>))
      else (None, s))"

text \<open>
  The two loops run over the keys. \<^verbatim>\<open>start\<close> leaves \<^verbatim>\<open>fetchers\<close> alone, and \<^verbatim>\<open>stop\<close>
  only deletes from \<^verbatim>\<open>schedulers\<close> and does nothing for a key that is gone, so iterating
  the live \<^verbatim>\<open>Map\<close> visits what the keys taken at the start give. An exception ends the
  loop with the state reached so far.
\<close>

fun each :: "(string option \<Rightarrow> ContentScheduler \<Rightarrow> string option \<times> ContentScheduler)
               \<Rightarrow> string list \<Rightarrow> ContentScheduler \<Rightarrow> string option \<times> ContentScheduler" where
  "each f [] s = (None, s)"
| "each f (i # is) s =
     (case f (Some i) s of
        (Some e, s') \<Rightarrow> (Some e, s')
      | (None, s') \<Rightarrow> each f is s')"

definition startAll :: "ContentScheduler \<Rightarrow> string option \<times> ContentScheduler" where
  "startAll s = each start (map fst (fetchers s)) s"

definition stopAll :: "ContentScheduler \<Rightarrow> string option \<times> ContentScheduler" where
  "stopAll s = each stop (map fst (schedulers s)) s"

definition getActiveFetchers :: "ContentScheduler \<Rightarrow> string list" where
  "getActiveFetchers s = map fst (fetchers s)"

definition getActiveSchedulers :: "ContentScheduler \<Rightarrow> string list" where
  "getActiveSchedulers s = map fst (schedulers s)"

definition getFetcher :: "ContentScheduler \<Rightarrow> string \<Rightarrow> ContentFetcher option" where
  "getFetcher s i = map_of (fetchers s) i"

text \<open>
  A caller's sequence of registry operations; an exception is the caller's to catch, and
  the next operation acts on the state the failed one left.
\<close>

datatype operation =
    AddFetcher string ContentFetcherConfig
  | RemoveFetcher string
  | Start "string option"
  | Stop "string option"
  | StartAll
  | StopAll

fun perform :: "operation \<Rightarrow> ContentScheduler \<Rightarrow> string option \<times> ContentScheduler" where
  "perform (AddFetcher i c) s = addFetcher i c s"
| "perform (RemoveFetcher i) s = removeFetcher i s"
| "perform (Start i) s = start i s"
| "perform (Stop i) s = stop i s"
| "perform StartAll s = startAll s"
| "perform StopAll s = stopAll s"

fun run :: "operation list \<Rightarrow> ContentScheduler \<Rightarrow> ContentScheduler" where
  "run [] s = s"
| "run (x # xs) s = run xs (snd (perform x s))"

section \<open>Measures used in the statements\<close>

text \<open>
  The writes \<^verbatim>\<open>createFiles\<close> attempts: the sitemap when its text is not empty, robots.txt
  likewise, and each entry of the page array.
\<close>

definition attempts :: "ContentApiResponse \<Rightarrow> nat" where
  "attempts content =
     (if sitemapXml content \<noteq> [] then 1 else 0) + (if robotTxt content \<noteq> [] then 1 else 0)
       + length (page_items content)"

text \<open>\<^verbatim>\<open>errors?.length ?? 0\<close>\<close>

definition error_count :: "SyncResult \<Rightarrow> nat" where
  "error_count r = (case errors r of None \<Rightarrow> 0 | Some es \<Rightarrow> length es)"

text \<open>A bundle whose \<^verbatim>\<open>pages\<close> can be spread: an array, or missing.\<close>

definition iterable :: "ContentApiResponse \<Rightarrow> bool" where
  "iterable c = (pages c \<noteq> PagesNotIterable)"

text \<open>Armed ids are registered, and the empty id is never armed.\<close>

definition armed_ok :: "ContentScheduler \<Rightarrow> bool" where
  "armed_ok s = (set (map fst (schedulers s)) \<subseteq> set (map fst (fetchers s))
                 \<and> [] \<notin> set (map fst (schedulers s)))"

section \<open>Example inputs\<close>

definition ex_config :: ContentFetcherConfig where
  "ex_config = \<lparr>domain = ''example.com'', installId = ''abc'', targetDirectory = ''out''\<rparr>"


definition about_page :: ContentPage where
  "about_page = \<lparr>urlPath = ''about'', title = ''About'', html = ''<p>hi</p>''\<rparr>"

definition contact_page :: ContentPage where
  "contact_page = \<lparr>urlPath = ''contact.html'', title = ''Contact'', html = ''<p>c</p>''\<rparr>"

text \<open>
  A process in \<^verbatim>\<open>/srv\<close> whose network is down and whose disk accepts every write. The
  \<^verbatim>\<open>path\<close> functions are Node's on the paths of the examples, which have no directory
  part; the two messages stand for the engine's wording.
\<close>

definition ex_world :: world where
  "ex_world =
     \<lparr>http_get = (\<lambda>u k. Rejected ''fetch failed''),
      fs_access = (\<lambda>p. True),
      fs_mkdir = (\<lambda>p. None),
      fs_writeFile = (\<lambda>p c. None),
      path_resolve = (\<lambda>p. ''/srv/'' @ p),
      path_join = (\<lambda>a b. a @ ''/'' @ b),
      path_dirname = (\<lambda>p. ''.''),
      path_basename = (\<lambda>p. p),
      path_relative = (\<lambda>a b. drop (Suc (length a)) b),
      elapsed = 7,
      msg_not_iterable = ''pages is not iterable'',
      msg_null_property = (\<lambda>p. ''Cannot read properties of null (reading '' @ p @ '')'')\<rparr>"

text \<open>The contact page and the sitemap cannot be written.\<close>

definition denied_world :: world where
  "denied_world =
     ex_world\<lparr>fs_writeFile :=
       (\<lambda>p c. if p = ''/srv/out/contact.html'' \<or> p = ''/srv/out/sitemap.xml''
              then Some ''EACCES: permission denied'' else None)\<rparr>"

text \<open>
  The first request to either URL is answered 200 with the body
  \<^verbatim>\<open>{"sitemapXml": "", "robotTxt": "", "pages": 7}\<close>; the network is down afterwards.
\<close>

definition bad_pages_world :: world where
  "bad_pages_world =
     ex_world\<lparr>http_get :=
       (\<lambda>u k. if k = 0
              then Response 200 ''OK''
                     (JsonObject None \<lparr>sitemapXml = [], robotTxt = [], pages = PagesNotIterable\<rparr>)
              else Rejected ''fetch failed'')\<rparr>"

text \<open>New content cannot be fetched; two pages were published before.\<close>

definition previous_only_world :: world where
  "previous_only_world =
     ex_world\<lparr>http_get :=
       (\<lambda>u k. if u = previous_content_url ex_config
              then Response 200 ''OK''
                     (JsonObject None (mk_bundle ''<xml/>'' [] [about_page, contact_page]))
              else Rejected ''fetch failed'')\<rparr>"

text \<open>Every request is answered 404 with \<^verbatim>\<open>{"error": "No generated pages to publish."}\<close>.\<close>

definition nothing_new_world :: world where
  "nothing_new_world =
     ex_world\<lparr>http_get :=
       (\<lambda>u k. Response 404 ''Not Found''
                (JsonObject (Some no_pages_sentinel)
                   \<lparr>sitemapXml = [], robotTxt = [], pages = PagesMissing\<rparr>))\<rparr>"

text \<open>Every request is answered 500.\<close>

definition server_error_world :: world where
  "server_error_world =
     ex_world\<lparr>http_get := (\<lambda>u k. Response 500 ''Internal Server Error'' (Unparseable ''Unexpected token''))\<rparr>"

text \<open>Every request is answered 404 with another error than the sentinel.\<close>

definition not_found_world :: world where
  "not_found_world =
     ex_world\<lparr>http_get :=
       (\<lambda>u k. Response 404 ''Not Found''
                (JsonObject (Some ''Unknown domain.'')
                   \<lparr>sitemapXml = [], robotTxt = [], pages = PagesMissing\<rparr>))\<rparr>"

definition ex_content :: ContentApiResponse where
  "ex_content = mk_bundle ''<xml/>'' [] [about_page, contact_page]"

text \<open>A page array with a \<^verbatim>\<open>null\<close> entry after the first page.\<close>

definition null_entry_content :: ContentApiResponse where
  "null_entry_content =
     \<lparr>sitemapXml = ''<xml/>'', robotTxt = [],
      pages = PagesArray (map Some [about_page] @ None # [Some contact_page])\<rparr>"

text \<open>One source registered under \<^verbatim>\<open>a\<close>; then armed; and a registry holding the empty id.\<close>

definition one_source :: ContentScheduler where
  "one_source = snd (addFetcher ''a'' ex_config (new_ContentScheduler None None))"

definition one_armed :: ContentScheduler where
  "one_armed = snd (start (Some ''a'') one_source)"

definition empty_id_source :: ContentScheduler where
  "empty_id_source = run [AddFetcher [] ex_config] (new_ContentScheduler None None)"

section \<open>Auxiliary facts about fetching and writing\<close>

lemmas ex_defs = ex_config_def ex_world_def new_ContentFetcher_def

lemmas fetch_defs = fetchContent_def fetchPreviouslyPublishedContent_def handle_response_def
  response_ok_def new_content_url_def previous_content_url_def settled_value_def
  fetchAllContent_def merge_content_def spread_pages_def js_or_def emptyContent_def mk_bundle_def

lemma write_named_count:
  "length (fst (write_named w b n t acc)) + length (snd (write_named w b n t acc))
     = length (fst acc) + length (snd acc) + (if t \<noteq> [] then 1 else 0)"
  by (simp add: write_named_def split: option.split)

lemma createPages_count:
  "None \<notin> set ps \<Longrightarrow>
     fst (createPages step m ps acc) = None \<and>
     length (fst (snd (createPages step m ps acc))) + length (snd (snd (createPages step m ps acc)))
       = length (fst acc) + length (snd acc) + length ps"
proof (induction ps arbitrary: acc)
  case Nil
  then show ?case by simp
next
  case (Cons p ps)
  then obtain page where p: "p = Some page" by (cases p) auto
  from Cons.prems have rest: "None \<notin> set ps" by simp
  show ?case
  proof (cases "step page")
    case (Inl e)
    with p Cons.IH [OF rest, of "(fst acc, snd acc @ [e])"] show ?thesis by simp
  next
    case (Inr rel)
    with p Cons.IH [OF rest, of "(fst acc @ [rel], snd acc)"] show ?thesis by simp
  qed
qed

lemma createPages_null:
  "createPages step m (map Some qs @ None # rest) acc
     = (Some m, snd (createPages step m (map Some qs) acc))"
proof (induction qs arbitrary: acc)
  case Nil
  show ?case by simp
next
  case (Cons q qs)
  show ?case by (cases "step q") (simp_all add: Cons.IH)
qed

lemma createFiles_try_count:
  assumes "None \<notin> set (page_items content)"
  shows "fst (createFiles_try step prop w f content) = None \<and>
         length (fst (snd (createFiles_try step prop w f content)))
           + length (snd (snd (createFiles_try step prop w f content))) = attempts content"
proof (cases "pages content")
  case (PagesArray ps)
  with assms have "None \<notin> set ps" by (simp add: page_items_def)
  from createPages_count [OF this] PagesArray show ?thesis
    by (simp add: createFiles_try_def Let_def write_named_count attempts_def page_items_def)
qed (simp_all add: createFiles_try_def Let_def write_named_count attempts_def page_items_def)

lemma createFiles_result_success:
  "success (createFiles_result w r) \<longleftrightarrow> error_count (createFiles_result w r) = 0"
  by (cases r; cases "fst r") (auto simp: createFiles_result_def error_count_def)

lemma createFiles_result_count:
  "fst r = None \<Longrightarrow>
     length (filesCreated (createFiles_result w r)) + error_count (createFiles_result w r)
       = length (fst (snd r)) + length (snd (snd r))"
  by (cases r) (auto simp: createFiles_result_def error_count_def)

lemma createFiles_try_null:
  assumes "pages content = PagesArray (map Some qs @ None # rest)"
  shows "createFiles_try step prop w f content
           = (Some (msg_null_property w prop),
              snd (createFiles_try step prop w f (content\<lparr>pages := PagesArray (map Some qs)\<rparr>)))"
  using assms by (simp add: createFiles_try_def Let_def createPages_null)

lemma createFiles_result_thrown:
  "createFiles_result w (Some e, acc)
     = \<lparr>success = False, message = ''Failed to create files: '' @ e,
        filesCreated = fst acc, errors = Some [''Failed to create files: '' @ e]\<rparr>"
  by (cases acc) (simp add: createFiles_result_def)

lemma createFiles_result_files:
  "filesCreated (createFiles_result w r) = fst (snd r)"
  by (cases r; cases "fst r") (auto simp: createFiles_result_def)

lemma merge_content_iterable:
  assumes "iterable n" "iterable p"
  shows "merge_content w n p
           = Inr \<lparr>sitemapXml = (if sitemapXml n \<noteq> [] then sitemapXml n else sitemapXml p),
                  robotTxt = (if robotTxt n \<noteq> [] then robotTxt n else robotTxt p),
                  pages = PagesArray (page_items p @ page_items n)\<rparr>"
  using assms
  by (cases "pages n"; cases "pages p")
     (simp_all add: merge_content_def spread_pages_def iterable_def page_items_def js_or_def)

lemma merge_content_empty: "merge_content w emptyContent emptyContent = Inr emptyContent"
  by (simp add: merge_content_def emptyContent_def spread_pages_def js_or_def)


lemma handle_response_sentinel:
  "handle_response pre (Response 404 txt (JsonObject (Some no_pages_sentinel) c)) = Inr emptyContent"
  by (simp add: handle_response_def response_ok_def)

lemma handle_response_other:
  "\<not> response_ok st \<Longrightarrow> st \<noteq> 404 \<Longrightarrow>
     handle_response pre (Response st txt body)
       = Inl (pre @ ''API request failed: '' @ show_nat st @ '' '' @ txt)"
  by (simp add: handle_response_def)

lemma handle_response_fails:
  assumes "\<not> response_ok st"
    and "\<not> (st = 404 \<and> (\<exists>d. body = JsonObject (Some no_pages_sentinel) d))"
  shows "isl (handle_response pre (Response st txt body))"
  using assms by (cases body) (auto simp: handle_response_def)

lemma createFiles_empty:
  "createFiles w f emptyContent
     = \<lparr>success = True,
        message = ''Successfully created 0 files in '' @ show_nat (elapsed w) @ ''ms'',
        filesCreated = [], errors = None\<rparr>"
  by (simp add: createFiles_def createFiles_try_def createFiles_result_def emptyContent_def
        write_named_def digit_char_def)

section \<open>Auxiliary facts about the registry\<close>

lemma map_of_in_keys: "map_of m k = Some v \<Longrightarrow> k \<in> fst ` set m"
  by (force dest: map_of_SomeD)

lemma has_iff: "has m k \<longleftrightarrow> k \<in> fst ` set m"
proof (cases "map_of m k")
  case None
  then have "k \<notin> fst ` set m" by (simp add: map_of_eq_None_iff)
  then show ?thesis unfolding has_def None by simp
next
  case (Some v)
  then show ?thesis by (simp add: has_def map_of_in_keys)
qed

lemma keys_update: "fst ` set (AList.update k v m) = insert k (fst ` set m)"
  using dom_update [of k v m] by simp

lemma keys_delete: "fst ` set (AList.delete k m) = fst ` set m - {k}"
  using delete_keys [of k m] by (metis set_map set_removeAll)

lemma armed_ok_addFetcher: "armed_ok s \<Longrightarrow> armed_ok (snd (addFetcher i c s))"
  by (auto simp: armed_ok_def addFetcher_def keys_update split: option.splits)

lemma armed_ok_start: "armed_ok s \<Longrightarrow> armed_ok (snd (start i s))"
  by (auto simp: armed_ok_def start_def keys_update
           split: option.splits dest: map_of_in_keys)

lemma armed_ok_stop: "armed_ok s \<Longrightarrow> armed_ok (snd (stop i s))"
  by (auto simp: armed_ok_def stop_def keys_delete split: option.splits)

lemma stop_Some_removes:
  "i \<noteq> [] \<Longrightarrow> fst (stop (Some i) s) = None \<and> i \<notin> fst ` set (schedulers (snd (stop (Some i) s)))"
  by (auto simp: stop_def targetId_def falsy_def keys_delete map_of_eq_None_iff
           split: option.splits)

lemma armed_ok_removeFetcher: "armed_ok s \<Longrightarrow> armed_ok (snd (removeFetcher i s))"
proof (cases "i = []")
  case True
  assume inv: "armed_ok s"
  show ?thesis
  proof (cases "has (fetchers s) i \<and> fst (stop (Some i) s) = None")
    case False
    then show ?thesis
      using inv armed_ok_stop [OF inv, of "Some i"]
      by (cases "stop (Some i) s") (auto simp: removeFetcher_def split: option.splits)
  next
    case T: True
    from armed_ok_stop [OF inv, of "Some i"] have inv': "armed_ok (snd (stop (Some i) s))" .
    obtain s' where s': "stop (Some i) s = (None, s')" using T by (cases "stop (Some i) s") auto
    with inv' have "armed_ok s'" by simp
    then have "armed_ok (s'\<lparr>fetchers := AList.delete i (fetchers s')\<rparr>)"
      using True by (simp add: armed_ok_def keys_delete) blast
    with T s' show ?thesis by (simp add: removeFetcher_def)
  qed
next
  case False
  assume inv: "armed_ok s"
  from armed_ok_stop [OF inv, of "Some i"] have inv': "armed_ok (snd (stop (Some i) s))" .
  from stop_Some_removes [OF False, of s]
  obtain s' where s': "stop (Some i) s = (None, s')" "i \<notin> fst ` set (schedulers s')"
    by (cases "stop (Some i) s") auto
  with inv' have "armed_ok s'" by simp
  with s'(2) have "armed_ok (s'\<lparr>fetchers := AList.delete i (fetchers s')\<rparr>)"
    by (auto simp: armed_ok_def keys_delete)
  with s' inv show ?thesis by (simp add: removeFetcher_def)
qed

lemma armed_ok_each:
  assumes step: "\<And>i s. armed_ok s \<Longrightarrow> armed_ok (snd (g i s))"
  shows "armed_ok s \<Longrightarrow> armed_ok (snd (each g ks s))"
proof (induction ks arbitrary: s)
  case Nil
  then show ?case by simp
next
  case (Cons k ks)
  from step [OF Cons.prems, of "Some k"] have inv: "armed_ok (snd (g (Some k) s))" .
  show ?case
  proof (cases "g (Some k) s")
    case (Pair r s')
    with inv have "armed_ok s'" by simp
    with Pair Cons.IH [of s'] show ?thesis by (cases r) simp_all
  qed
qed

lemma armed_ok_perform: "armed_ok s \<Longrightarrow> armed_ok (snd (perform x s))"
  by (cases x)
     (simp_all add: armed_ok_addFetcher armed_ok_removeFetcher armed_ok_start armed_ok_stop
        startAll_def stopAll_def armed_ok_each)

lemma armed_ok_run: "armed_ok s \<Longrightarrow> armed_ok (run xs s)"
  by (induction xs arbitrary: s) (simp_all add: armed_ok_perform)

lemma armed_ok_new: "armed_ok (new_ContentScheduler fo io)"
  by (simp add: armed_ok_def new_ContentScheduler_def empty_scheduler_def split: option.splits)

lemma start_armed:
  assumes "targetId i s = Some t" "t \<noteq> []" "has (fetchers s) t" "has (schedulers s) t"
  shows "start i s = (None, s)"
proof -
  from assms(3) obtain fetcher where "map_of (fetchers s) t = Some fetcher"
    by (cases "map_of (fetchers s) t") (simp_all add: has_def)
  with assms show ?thesis by (simp add: start_def)
qed

lemma start_fresh:
  assumes "targetId i s = Some t" "t \<noteq> []" "map_of (fetchers s) t = Some fetcher"
    "\<not> has (schedulers s) t"
  shows "start i s
           = (None, s\<lparr>schedulers := AList.update t (nextTimer s) (schedulers s),
                      nextTimer := Suc (nextTimer s),
                      timers := timers s @ [nextTimer s],
                      trace := trace s @ [SetInterval (nextTimer s) t TWENTY_FOUR_HOURS,
                                          SyncLaunched t]\<rparr>)"
  using assms by (simp add: start_def)

lemma start_twice:
  assumes "fst (start i s) = None"
  shows "start i (snd (start i s)) = (None, snd (start i s))"
proof (cases "targetId i s")
  case None
  with assms show ?thesis by (simp add: start_def)
next
  case (Some t)
  show ?thesis
  proof (cases "t = []")
    case True
    with Some assms show ?thesis by (simp add: start_def)
  next
    case False
    show ?thesis
    proof (cases "map_of (fetchers s) t")
      case None
      with Some False assms show ?thesis by (simp add: start_def)
    next
      case fetcher: (Some fetcher)
      show ?thesis
      proof (cases "has (schedulers s) t")
        case True
        with Some False fetcher show ?thesis by (simp add: start_def)
      next
        case F: False
        let ?s' = "s\<lparr>schedulers := AList.update t (nextTimer s) (schedulers s),
                      nextTimer := Suc (nextTimer s),
                      timers := timers s @ [nextTimer s],
                      trace := trace s @ [SetInterval (nextTimer s) t TWENTY_FOUR_HOURS,
                                          SyncLaunched t]\<rparr>"
        have first: "start i s = (None, ?s')"
          using start_fresh [OF Some False fetcher F] .
        have "targetId i ?s' = targetId i s" by (simp add: targetId_def)
        with Some have target: "targetId i ?s' = Some t" by simp
        have registered: "has (fetchers ?s') t" using fetcher by (simp add: has_def)
        have armed: "has (schedulers ?s') t" by (simp add: has_iff keys_update)
        have "start i ?s' = (None, ?s')"
          using start_armed [OF target False registered armed] .
        with first show ?thesis by simp
      qed
    qed
  qed
qed

lemma one_source_eq:
  "one_source
     = \<lparr>fetchers = [(''a'', new_ContentFetcher ex_config)], schedulers = [], legacyId = None,
        isLegacyMode = False, nextTimer = 0, timers = [], trace = []\<rparr>"
  by (simp add: one_source_def addFetcher_def new_ContentScheduler_def empty_scheduler_def)

lemma one_armed_eq:
  "one_armed
     = \<lparr>fetchers = [(''a'', new_ContentFetcher ex_config)], schedulers = [(''a'', 0)],
        legacyId = None, isLegacyMode = False, nextTimer = Suc 0, timers = [0],
        trace = [SetInterval 0 ''a'' 86400000, SyncLaunched ''a'']\<rparr>"
  by (simp add: one_armed_def one_source_eq start_def targetId_def falsy_def has_def
        TWENTY_FOUR_HOURS_def)

section \<open>The claims\<close>

subsection \<open>C1: the first-sync flag\<close>




subsection \<open>C2: files and errors account for every attempted write\<close>

text \<open>
  C2, as the code has it. For every bundle whose page array has no \<^verbatim>\<open>null\<close> entry, as
  every bundle of the declared type, the lengths of \<^verbatim>\<open>filesCreated\<close> and of \<^verbatim>\<open>errors\<close>
  (0 when absent) add up to the number of writes attempted: the sitemap iff its text is
  not empty, robots.txt likewise, one for each page. For every bundle \<^verbatim>\<open>success\<close> is true
  iff there is no error.
\<close>

theorem createFiles_accounts_for_attempts:
  "(None \<notin> set (page_items content) \<longrightarrow>
      length (filesCreated (createFiles w f content)) + error_count (createFiles w f content)
        = attempts content)
   \<and> length (filesCreated (createFiles w f (mk_bundle sitemap robots ps)))
       + error_count (createFiles w f (mk_bundle sitemap robots ps))
       = (if sitemap \<noteq> [] then 1 else 0) + (if robots \<noteq> [] then 1 else 0) + length ps
   \<and> (success (createFiles w f content) \<longleftrightarrow> error_count (createFiles w f content) = 0)"
proof -
  have typed: "None \<notin> set (page_items (mk_bundle sitemap robots ps))"
    by (auto simp: page_items_def mk_bundle_def)
  from createFiles_try_count [OF typed, of createPage "''urlPath''" w f]
  have explicit: "length (filesCreated (createFiles w f (mk_bundle sitemap robots ps)))
       + error_count (createFiles w f (mk_bundle sitemap robots ps))
       = (if sitemap \<noteq> [] then 1 else 0) + (if robots \<noteq> [] then 1 else 0) + length ps"
    by (simp add: createFiles_def createFiles_result_count attempts_def page_items_def
          mk_bundle_def)
  from createFiles_try_count [of content createPage "''urlPath''" w f] explicit
  show ?thesis
    by (simp add: createFiles_def createFiles_result_success createFiles_result_count)
qed

text \<open>
  The theorem at work: a sitemap and two pages are attempted; the sitemap and one page
  cannot be written, so one file and two errors account for the three attempts.
\<close>

theorem createFiles_accounts_for_attempts_witness:
  "None \<notin> set (page_items ex_content)
   \<and> attempts ex_content = 3
   \<and> length (filesCreated (createFiles denied_world (new_ContentFetcher ex_config) ex_content))
       + error_count (createFiles denied_world (new_ContentFetcher ex_config) ex_content) = 3
   \<and> \<not> success (createFiles denied_world (new_ContentFetcher ex_config) ex_content)
   \<and> error_count (createFiles denied_world (new_ContentFetcher ex_config) ex_content) = 2"
proof -
  have pages: "None \<notin> set (page_items ex_content)"
    by (simp add: page_items_def ex_content_def mk_bundle_def)
  have three: "attempts ex_content = 3"
    by (simp add: attempts_def page_items_def ex_content_def mk_bundle_def)
  have two: "error_count (createFiles denied_world (new_ContentFetcher ex_config) ex_content) = 2"
    by (simp add: error_count_def createFiles_def createFiles_try_def createFiles_result_def
          write_named_def writeFile_def ensureDirectoryExists_def createPage_def write_page_def
          endsWith_def ex_content_def mk_bundle_def about_page_def contact_page_def
          denied_world_def ex_defs)
  from createFiles_accounts_for_attempts [of ex_content denied_world "new_ContentFetcher ex_config"]
    pages three two
  show ?thesis by simp
qed

text \<open>
  C2 as stated fails for a page array with a \<^verbatim>\<open>null\<close> entry. The sitemap cannot be
  written, the first page is written, the second entry is \<^verbatim>\<open>null\<close> and a third page
  follows: the exception leaves the loop, the outer \<^verbatim>\<open>catch\<close> returns its one error, and
  one file and one error stand against the sitemap and three page entries.
\<close>

theorem createFiles_accounts_for_attempts_counterexample:
  "length (filesCreated (createFiles denied_world (new_ContentFetcher ex_config) null_entry_content))
     + error_count (createFiles denied_world (new_ContentFetcher ex_config) null_entry_content) = 2
   \<and> attempts null_entry_content = 4
   \<and> filesCreated (createFiles denied_world (new_ContentFetcher ex_config) null_entry_content)
       = [''about.html'']
   \<and> errors (createFiles denied_world (new_ContentFetcher ex_config) null_entry_content)
       = Some [''Failed to create files: Cannot read properties of null (reading urlPath)'']"
  by (simp add: error_count_def attempts_def page_items_def createFiles_def createFiles_try_def
        createFiles_result_def write_named_def writeFile_def ensureDirectoryExists_def
        createPage_def write_page_def endsWith_def null_entry_content_def about_page_def
        denied_world_def ex_defs)

subsection \<open>C3: the merged fetch\<close>

text \<open>
  C3, as the code has it. A failed branch of \<^verbatim>\<open>fetchAllContent\<close> counts as the empty
  bundle. When the pages of both settled bundles can be spread (an array, or missing),
  as in every bundle of the declared type, the merged fetch returns a bundle and no
  failure: the sitemap and robots.txt are the new bundle's when not empty and the previous
  bundle's otherwise, and the pages are the previous ones followed by the new ones.
  Otherwise the spread throws and \<^verbatim>\<open>fetchAllContent\<close> rethrows to its caller. When the new
  content fails and the previous content succeeds with a bundle of the declared type,
  the result has exactly the previous bundle's pages.
\<close>

theorem fetchAllContent_merges:
  "(iterable (settled_value (fetchContent w 0 f)) \<and>
    iterable (settled_value (fetchPreviouslyPublishedContent w 0 f)) \<longrightarrow>
      fetchAllContent w f
        = Inr \<lparr>sitemapXml =
                 (if sitemapXml (settled_value (fetchContent w 0 f)) \<noteq> []
                  then sitemapXml (settled_value (fetchContent w 0 f))
                  else sitemapXml (settled_value (fetchPreviouslyPublishedContent w 0 f))),
               robotTxt =
                 (if robotTxt (settled_value (fetchContent w 0 f)) \<noteq> []
                  then robotTxt (settled_value (fetchContent w 0 f))
                  else robotTxt (settled_value (fetchPreviouslyPublishedContent w 0 f))),
               pages =
                 PagesArray (page_items (settled_value (fetchPreviouslyPublishedContent w 0 f))
                             @ page_items (settled_value (fetchContent w 0 f)))\<rparr>)
   \<and> (\<not> (iterable (settled_value (fetchContent w 0 f)) \<and>
          iterable (settled_value (fetchPreviouslyPublishedContent w 0 f))) \<longrightarrow>
        fetchAllContent w f = Inl (''Failed to fetch all content: '' @ msg_not_iterable w))
   \<and> (fetchContent w 0 f = Inl e \<longrightarrow> settled_value (fetchContent w 0 f) = mk_bundle [] [] [])
   \<and> (fetchPreviouslyPublishedContent w 0 f = Inl e \<longrightarrow>
        settled_value (fetchPreviouslyPublishedContent w 0 f) = mk_bundle [] [] [])
   \<and> (fetchContent w 0 f = Inr (mk_bundle sn rn pn) \<and>
      fetchPreviouslyPublishedContent w 0 f = Inr (mk_bundle sp rp pp) \<longrightarrow>
        fetchAllContent w f
          = Inr (mk_bundle (if sn \<noteq> [] then sn else sp) (if rn \<noteq> [] then rn else rp) (pp @ pn)))
   \<and> (fetchContent w 0 f = Inl e \<and>
      fetchPreviouslyPublishedContent w 0 f = Inr (mk_bundle sp rp pp) \<longrightarrow>
        fetchAllContent w f = Inr (mk_bundle sp rp pp))
   \<and> (fetchContent w 0 f = Inr (mk_bundle sn rn pn) \<and>
      fetchPreviouslyPublishedContent w 0 f = Inl e \<longrightarrow>
        fetchAllContent w f = Inr (mk_bundle sn rn pn))
   \<and> (fetchContent w 0 f = Inl e \<and> fetchPreviouslyPublishedContent w 0 f = Inl e' \<longrightarrow>
        fetchAllContent w f = Inr (mk_bundle [] [] []))"
proof -
  let ?n = "settled_value (fetchContent w 0 f)"
  let ?p = "settled_value (fetchPreviouslyPublishedContent w 0 f)"
  have typed: "iterable (mk_bundle s r p)" "page_items (mk_bundle s r p) = map Some p"
    "sitemapXml (mk_bundle s r p) = s" "robotTxt (mk_bundle s r p) = r" for s r p
    by (simp_all add: iterable_def page_items_def mk_bundle_def)
  have empty: "emptyContent = mk_bundle [] [] []"
    by (simp add: emptyContent_def mk_bundle_def)
  have fails: "merge_content w n p = Inl (''Failed to fetch all content: '' @ msg_not_iterable w)"
    if "\<not> (iterable n \<and> iterable p)" for n p
    using that
    by (cases "pages n"; cases "pages p")
       (simp_all add: merge_content_def spread_pages_def iterable_def)
  have general: "iterable ?n \<and> iterable ?p \<longrightarrow>
      fetchAllContent w f
        = Inr \<lparr>sitemapXml = (if sitemapXml ?n \<noteq> [] then sitemapXml ?n else sitemapXml ?p),
               robotTxt = (if robotTxt ?n \<noteq> [] then robotTxt ?n else robotTxt ?p),
               pages = PagesArray (page_items ?p @ page_items ?n)\<rparr>"
    by (simp add: fetchAllContent_def merge_content_iterable)
  have thrown: "\<not> (iterable ?n \<and> iterable ?p) \<longrightarrow>
      fetchAllContent w f = Inl (''Failed to fetch all content: '' @ msg_not_iterable w)"
    using fails [of ?n ?p] by (simp add: fetchAllContent_def)
  have settled: "fetchContent w 0 f = Inl e \<longrightarrow> ?n = mk_bundle [] [] []"
    "fetchPreviouslyPublishedContent w 0 f = Inl e \<longrightarrow> ?p = mk_bundle [] [] []"
    by (simp_all add: settled_value_def empty)
  have typed_cases: "(fetchContent w 0 f = Inr (mk_bundle sn rn pn) \<and>
      fetchPreviouslyPublishedContent w 0 f = Inr (mk_bundle sp rp pp) \<longrightarrow>
        fetchAllContent w f
          = Inr (mk_bundle (if sn \<noteq> [] then sn else sp) (if rn \<noteq> [] then rn else rp) (pp @ pn)))
   \<and> (fetchContent w 0 f = Inl e \<and>
      fetchPreviouslyPublishedContent w 0 f = Inr (mk_bundle sp rp pp) \<longrightarrow>
        fetchAllContent w f = Inr (mk_bundle sp rp pp))
   \<and> (fetchContent w 0 f = Inr (mk_bundle sn rn pn) \<and>
      fetchPreviouslyPublishedContent w 0 f = Inl e \<longrightarrow>
        fetchAllContent w f = Inr (mk_bundle sn rn pn))
   \<and> (fetchContent w 0 f = Inl e \<and> fetchPreviouslyPublishedContent w 0 f = Inl e' \<longrightarrow>
        fetchAllContent w f = Inr (mk_bundle [] [] []))"
    unfolding fetchAllContent_def settled_value_def empty
    by (auto simp: merge_content_iterable typed) (simp_all add: mk_bundle_def)
  from general thrown settled typed_cases show ?thesis by blast
qed

text \<open>
  The theorem at work: the new content cannot be fetched, the previous content has two
  pages, and the merged bundle has those two pages; and where a branch carries
  \<^verbatim>\<open>"pages": 7\<close> the merged fetch throws.
\<close>

theorem fetchAllContent_merges_witness:
  "fetchContent previous_only_world 0 (new_ContentFetcher ex_config)
     = Inl ''Failed to fetch new content: fetch failed''
   \<and> fetchPreviouslyPublishedContent previous_only_world 0 (new_ContentFetcher ex_config)
       = Inr (mk_bundle ''<xml/>'' [] [about_page, contact_page])
   \<and> iterable (settled_value (fetchContent previous_only_world 0 (new_ContentFetcher ex_config)))
   \<and> iterable (settled_value
        (fetchPreviouslyPublishedContent previous_only_world 0 (new_ContentFetcher ex_config)))
   \<and> fetchAllContent previous_only_world (new_ContentFetcher ex_config)
       = Inr (mk_bundle ''<xml/>'' [] [about_page, contact_page])
   \<and> \<not> iterable (settled_value (fetchContent bad_pages_world 0 (new_ContentFetcher ex_config)))
   \<and> fetchAllContent bad_pages_world (new_ContentFetcher ex_config)
       = Inl ''Failed to fetch all content: pages is not iterable''"
proof -
  let ?f = "new_ContentFetcher ex_config"
  have new: "fetchContent previous_only_world 0 ?f
               = Inl ''Failed to fetch new content: fetch failed''"
    by (simp add: fetch_defs ex_defs previous_only_world_def)
  have prev: "fetchPreviouslyPublishedContent previous_only_world 0 ?f
                = Inr (mk_bundle ''<xml/>'' [] [about_page, contact_page])"
    by (simp add: fetch_defs ex_defs previous_only_world_def)
  have it: "iterable (settled_value (fetchContent previous_only_world 0 ?f))"
    "iterable (settled_value (fetchPreviouslyPublishedContent previous_only_world 0 ?f))"
    by (simp_all add: iterable_def fetch_defs ex_defs previous_only_world_def)
  have bad: "\<not> iterable (settled_value (fetchContent bad_pages_world 0 ?f))"
    by (simp add: iterable_def fetch_defs ex_defs bad_pages_world_def)
  have msg: "msg_not_iterable bad_pages_world = ''pages is not iterable''"
    by (simp add: bad_pages_world_def ex_world_def)
  from fetchAllContent_merges
         [of previous_only_world ?f "''Failed to fetch new content: fetch failed''"
             _ _ _ "''<xml/>''" "[]" "[about_page, contact_page]"] new prev
  have merged: "fetchAllContent previous_only_world ?f
                  = Inr (mk_bundle ''<xml/>'' [] [about_page, contact_page])"
    by simp
  from fetchAllContent_merges [of bad_pages_world ?f] bad msg
  have thrown: "fetchAllContent bad_pages_world ?f
                  = Inl ''Failed to fetch all content: pages is not iterable''"
    by simp
  from new prev it merged bad thrown show ?thesis by simp
qed

text \<open>
  C3 as stated fails where a fulfilled branch carries pages that cannot be spread. Both
  requests are answered 200 with \<^verbatim>\<open>"pages": 7\<close>, both branches are fulfilled, and
  \<^verbatim>\<open>fetchAllContent\<close> throws to its caller.
\<close>

theorem fetchAllContent_merges_counterexample:
  "fetchContent bad_pages_world 0 (new_ContentFetcher ex_config)
     = Inr \<lparr>sitemapXml = [], robotTxt = [], pages = PagesNotIterable\<rparr>
   \<and> fetchPreviouslyPublishedContent bad_pages_world 0 (new_ContentFetcher ex_config)
       = Inr \<lparr>sitemapXml = [], robotTxt = [], pages = PagesNotIterable\<rparr>
   \<and> fetchAllContent bad_pages_world (new_ContentFetcher ex_config)
       = Inl ''Failed to fetch all content: pages is not iterable''"
  by (simp add: fetch_defs ex_defs bad_pages_world_def)

subsection \<open>C4: the empty-content sentinel\<close>

text \<open>
  C4. A 404 whose body has \<^verbatim>\<open>error\<close> equal to \<^verbatim>\<open>No generated pages to publish.\<close> makes
  both fetches return the empty bundle, and a \<^verbatim>\<open>syncContent\<close> whose requests are answered
  so returns success with no file and no error. Every other answer with a status
  outside 200..299, a 404 without that \<^verbatim>\<open>error\<close> among them, makes both fetches throw.
\<close>

theorem sentinel_404_is_empty_bundle:
  "(http_get w (new_content_url (config f)) k
      = Response 404 txt (JsonObject (Some no_pages_sentinel) c) \<longrightarrow>
        fetchContent w k f = Inr emptyContent)
   \<and> (http_get w (previous_content_url (config f)) k
        = Response 404 txt (JsonObject (Some no_pages_sentinel) c) \<longrightarrow>
          fetchPreviouslyPublishedContent w k f = Inr emptyContent)
   \<and> (http_get w (new_content_url (config f)) 0
        = Response 404 txt (JsonObject (Some no_pages_sentinel) c) \<and>
      (isFirstSync f \<longrightarrow>
         http_get w (previous_content_url (config f)) 0
           = Response 404 txt' (JsonObject (Some no_pages_sentinel) c')) \<longrightarrow>
        syncContent w f
          = (\<lparr>success = True,
              message = ''Successfully created 0 files in '' @ show_nat (elapsed w) @ ''ms'',
              filesCreated = [], errors = None\<rparr>,
             f\<lparr>isFirstSync := False\<rparr>))
   \<and> (http_get w (new_content_url (config f)) k = Response st txt body \<and>
      \<not> response_ok st \<and> st \<noteq> 404 \<longrightarrow>
        fetchContent w k f
          = Inl (''Failed to fetch new content: API request failed: '' @ show_nat st @ '' '' @ txt))
   \<and> (http_get w (previous_content_url (config f)) k = Response st txt body \<and>
      \<not> response_ok st \<and> st \<noteq> 404 \<longrightarrow>
        fetchPreviouslyPublishedContent w k f
          = Inl (''Failed to fetch previously published content: API request failed: ''
                 @ show_nat st @ '' '' @ txt))
   \<and> (http_get w (new_content_url (config f)) k = Response st txt body \<and>
      \<not> response_ok st \<and>
      \<not> (st = 404 \<and> (\<exists>d. body = JsonObject (Some no_pages_sentinel) d)) \<longrightarrow>
        isl (fetchContent w k f))
   \<and> (http_get w (previous_content_url (config f)) k = Response st txt body \<and>
      \<not> response_ok st \<and>
      \<not> (st = 404 \<and> (\<exists>d. body = JsonObject (Some no_pages_sentinel) d)) \<longrightarrow>
        isl (fetchPreviouslyPublishedContent w k f))"
proof -
  have sync: "syncContent w f
          = (\<lparr>success = True,
              message = ''Successfully created 0 files in '' @ show_nat (elapsed w) @ ''ms'',
              filesCreated = [], errors = None\<rparr>,
             f\<lparr>isFirstSync := False\<rparr>)"
    if new: "http_get w (new_content_url (config f)) 0
               = Response 404 txt (JsonObject (Some no_pages_sentinel) c)"
    and prev: "isFirstSync f \<longrightarrow>
         http_get w (previous_content_url (config f)) 0
           = Response 404 txt' (JsonObject (Some no_pages_sentinel) c')"
  proof -
    have "sync_fetch w f = Inr emptyContent"
      using new prev
      by (simp add: sync_fetch_def fetchAllContent_def fetchContent_def
            fetchPreviouslyPublishedContent_def handle_response_sentinel settled_value_def
            merge_content_empty)
    then show ?thesis by (simp add: syncContent_def createFiles_empty)
  qed
  have other: "isl (fetchContent w k f)"
    if "http_get w (new_content_url (config f)) k = Response st txt body"
      and "\<not> response_ok st"
      and "\<not> (st = 404 \<and> (\<exists>d. body = JsonObject (Some no_pages_sentinel) d))"
    using that handle_response_fails [OF that(2,3)] by (simp add: fetchContent_def)
  have other': "isl (fetchPreviouslyPublishedContent w k f)"
    if "http_get w (previous_content_url (config f)) k = Response st txt body"
      and "\<not> response_ok st"
      and "\<not> (st = 404 \<and> (\<exists>d. body = JsonObject (Some no_pages_sentinel) d))"
    using that handle_response_fails [OF that(2,3)]
    by (simp add: fetchPreviouslyPublishedContent_def)
  have first: "(http_get w (new_content_url (config f)) k
      = Response 404 txt (JsonObject (Some no_pages_sentinel) c) \<longrightarrow>
        fetchContent w k f = Inr emptyContent)
   \<and> (http_get w (previous_content_url (config f)) k
        = Response 404 txt (JsonObject (Some no_pages_sentinel) c) \<longrightarrow>
          fetchPreviouslyPublishedContent w k f = Inr emptyContent)
   \<and> (http_get w (new_content_url (config f)) k = Response st txt body \<and>
      \<not> response_ok st \<and> st \<noteq> 404 \<longrightarrow>
        fetchContent w k f
          = Inl (''Failed to fetch new content: API request failed: '' @ show_nat st @ '' '' @ txt))
   \<and> (http_get w (previous_content_url (config f)) k = Response st txt body \<and>
      \<not> response_ok st \<and> st \<noteq> 404 \<longrightarrow>
        fetchPreviouslyPublishedContent w k f
          = Inl (''Failed to fetch previously published content: API request failed: ''
                 @ show_nat st @ '' '' @ txt))"
    by (simp add: fetchContent_def fetchPreviouslyPublishedContent_def handle_response_sentinel
          handle_response_other)
  from first sync other other' show ?thesis by blast
qed

text \<open>
  The theorem at work: every request answered by the sentinel gives a successful sync
  that writes nothing; a 500 makes the fetch throw, and so does a 404 with another
  error.
\<close>

theorem sentinel_404_is_empty_bundle_witness:
  "http_get nothing_new_world (new_content_url (config (new_ContentFetcher ex_config))) 0
     = Response 404 ''Not Found''
         (JsonObject (Some no_pages_sentinel)
            \<lparr>sitemapXml = [], robotTxt = [], pages = PagesMissing\<rparr>)
   \<and> http_get nothing_new_world (previous_content_url (config (new_ContentFetcher ex_config))) 0
     = Response 404 ''Not Found''
         (JsonObject (Some no_pages_sentinel)
            \<lparr>sitemapXml = [], robotTxt = [], pages = PagesMissing\<rparr>)
   \<and> syncContent nothing_new_world (new_ContentFetcher ex_config)
       = (\<lparr>success = True, message = ''Successfully created 0 files in 7ms'',
           filesCreated = [], errors = None\<rparr>,
          (new_ContentFetcher ex_config)\<lparr>isFirstSync := False\<rparr>)
   \<and> \<not> response_ok 500
   \<and> fetchContent server_error_world 0 (new_ContentFetcher ex_config)
       = Inl ''Failed to fetch new content: API request failed: 500 Internal Server Error''
   \<and> http_get not_found_world (new_content_url (config (new_ContentFetcher ex_config))) 0
       = Response 404 ''Not Found''
           (JsonObject (Some ''Unknown domain.'')
              \<lparr>sitemapXml = [], robotTxt = [], pages = PagesMissing\<rparr>)
   \<and> \<not> response_ok 404
   \<and> isl (fetchContent not_found_world 0 (new_ContentFetcher ex_config))"
proof -
  let ?f = "new_ContentFetcher ex_config"
  let ?c = "\<lparr>sitemapXml = [], robotTxt = [], pages = PagesMissing\<rparr>"
  have get: "http_get nothing_new_world u k
               = Response 404 ''Not Found'' (JsonObject (Some no_pages_sentinel) ?c)" for u k
    by (simp add: nothing_new_world_def ex_world_def)
  have err: "http_get server_error_world (new_content_url (config ?f)) 0
               = Response 500 ''Internal Server Error'' (Unparseable ''Unexpected token'')"
    by (simp add: server_error_world_def ex_world_def)
  have nf: "http_get not_found_world (new_content_url (config ?f)) 0
              = Response 404 ''Not Found'' (JsonObject (Some ''Unknown domain.'') ?c)"
    by (simp add: not_found_world_def ex_world_def)
  have other: "\<not> (404 = (404::nat) \<and>
                 (\<exists>d. JsonObject (Some ''Unknown domain.'') ?c
                        = JsonObject (Some no_pages_sentinel) d))"
    by (simp add: no_pages_sentinel_def)
  have st: "\<not> response_ok 500" "(500::nat) \<noteq> 404" "\<not> response_ok 404"
    by (simp_all add: response_ok_def)
  have ms: "elapsed nothing_new_world = 7" by (simp add: nothing_new_world_def ex_world_def)
  have shown: "show_nat 7 = ''7''" "show_nat 500 = ''500''" by (simp_all add: digit_char_def)
  from sentinel_404_is_empty_bundle [of nothing_new_world ?f 0 "''Not Found''" ?c "''Not Found''" ?c]
    get ms shown
  have sync: "syncContent nothing_new_world ?f
       = (\<lparr>success = True, message = ''Successfully created 0 files in 7ms'',
           filesCreated = [], errors = None\<rparr>, ?f\<lparr>isFirstSync := False\<rparr>)"
    by simp
  from sentinel_404_is_empty_bundle [of server_error_world ?f 0 "''Internal Server Error''" ?c
      "''Not Found''" ?c 500 "Unparseable ''Unexpected token''"] err st shown
  have failed: "fetchContent server_error_world 0 ?f
       = Inl ''Failed to fetch new content: API request failed: 500 Internal Server Error''"
    by simp
  from sentinel_404_is_empty_bundle [of not_found_world ?f 0 "''Not Found''" ?c "''Not Found''" ?c 404
      "JsonObject (Some ''Unknown domain.'') ?c"] nf st(3) other
  have unknown: "isl (fetchContent not_found_world 0 ?f)"
    by blast
  from get sync st(1,3) failed nf unknown show ?thesis by simp
qed

subsection \<open>C5: a failed fetch becomes a failed result\<close>

text \<open>
  C5. When the fetch of a single-fetch path throws, \<^verbatim>\<open>syncContent\<close> (after the first sync,
  and on the first sync's fallback), \<^verbatim>\<open>syncNewContentOnly\<close> and
  \<^verbatim>\<open>syncPreviousContentOnly\<close> return a result with \<^verbatim>\<open>success\<close> false, no file created and
  exactly one error, which carries the message of the fetch failure.
\<close>

theorem fetch_failure_gives_failed_result:
  "(\<not> isFirstSync f \<and> fetchContent w 0 f = Inl e \<longrightarrow>
      syncContent w f
        = (\<lparr>success = False, message = ''Content sync failed: '' @ e, filesCreated = [],
            errors = Some [''Content sync failed: '' @ e]\<rparr>, f))
   \<and> (isFirstSync f \<and> fetchAllContent w f = Inl e0 \<and> fetchContent w 1 f = Inl e \<longrightarrow>
        syncContent w f
          = (\<lparr>success = False, message = ''Content sync failed: '' @ e, filesCreated = [],
              errors = Some [''Content sync failed: '' @ e]\<rparr>, f))
   \<and> (fetchContent w 0 f = Inl e \<longrightarrow>
        syncNewContentOnly w f
          = \<lparr>success = False, message = ''New content sync failed: '' @ e, filesCreated = [],
             errors = Some [''New content sync failed: '' @ e]\<rparr>)
   \<and> (fetchPreviouslyPublishedContent w 0 f = Inl e \<longrightarrow>
        syncPreviousContentOnly w f
          = \<lparr>success = False, message = ''Previously published content sync failed: '' @ e,
             filesCreated = [],
             errors = Some [''Previously published content sync failed: '' @ e]\<rparr>)"
  by (simp add: syncContent_def sync_fetch_def syncNewContentOnly_def syncPreviousContentOnly_def
        failed_sync_def)

text \<open>The theorem at work: the network is down after the first sync.\<close>

theorem fetch_failure_gives_failed_result_witness:
  "\<not> isFirstSync ((new_ContentFetcher ex_config)\<lparr>isFirstSync := False\<rparr>)
   \<and> fetchContent ex_world 0 ((new_ContentFetcher ex_config)\<lparr>isFirstSync := False\<rparr>)
       = Inl ''Failed to fetch new content: fetch failed''
   \<and> syncContent ex_world ((new_ContentFetcher ex_config)\<lparr>isFirstSync := False\<rparr>)
       = (\<lparr>success = False,
           message = ''Content sync failed: Failed to fetch new content: fetch failed'',
           filesCreated = [],
           errors = Some [''Content sync failed: Failed to fetch new content: fetch failed'']\<rparr>,
          (new_ContentFetcher ex_config)\<lparr>isFirstSync := False\<rparr>)
   \<and> syncNewContentOnly ex_world ((new_ContentFetcher ex_config)\<lparr>isFirstSync := False\<rparr>)
       = \<lparr>success = False,
          message = ''New content sync failed: Failed to fetch new content: fetch failed'',
          filesCreated = [],
          errors = Some [''New content sync failed: Failed to fetch new content: fetch failed'']\<rparr>"
proof -
  let ?f = "(new_ContentFetcher ex_config)\<lparr>isFirstSync := False\<rparr>"
  have flag: "\<not> isFirstSync ?f" by simp
  have new: "fetchContent ex_world 0 ?f = Inl ''Failed to fetch new content: fetch failed''"
    by (simp add: fetch_defs ex_defs)
  from fetch_failure_gives_failed_result [of ?f ex_world
      "''Failed to fetch new content: fetch failed''"] flag new
  show ?thesis by simp
qed

subsection \<open>C6: starting an armed schedule\<close>

text \<open>
  C6. \<^verbatim>\<open>start\<close> for a registered id whose schedule is armed returns without an exception
  and leaves the whole state as it was: no timer is created, the armed map is unchanged
  and no sync is launched. Hence a second \<^verbatim>\<open>start\<close> after a successful one changes nothing.
\<close>

theorem start_when_armed_changes_nothing:
  "(targetId i s = Some t \<and> t \<noteq> [] \<and> has (fetchers s) t \<and> has (schedulers s) t \<longrightarrow>
      start i s = (None, s))
   \<and> (fst (start i s) = None \<longrightarrow> start i (snd (start i s)) = (None, snd (start i s)))"
  using start_armed [of i s t] start_twice [of i s] by blast

text \<open>The theorem at work: \<^verbatim>\<open>start("a")\<close> twice on a registry that holds \<^verbatim>\<open>a\<close>.\<close>

theorem start_when_armed_changes_nothing_witness:
  "targetId (Some ''a'') one_armed = Some ''a''
   \<and> has (fetchers one_armed) ''a'' \<and> has (schedulers one_armed) ''a''
   \<and> start (Some ''a'') one_armed = (None, one_armed)
   \<and> fst (start (Some ''a'') one_source) = None
   \<and> start (Some ''a'') (snd (start (Some ''a'') one_source))
       = (None, snd (start (Some ''a'') one_source))"
proof -
  have target: "targetId (Some ''a'') one_armed = Some ''a''"
    by (simp add: targetId_def one_armed_eq)
  have registered: "has (fetchers one_armed) ''a''" by (simp add: has_def one_armed_eq)
  have armed: "has (schedulers one_armed) ''a''" by (simp add: has_def one_armed_eq)
  have first: "fst (start (Some ''a'') one_source) = None"
    by (simp add: one_source_eq start_def targetId_def falsy_def has_def)
  from start_when_armed_changes_nothing [of "Some ''a''" one_armed "''a''"]
    target registered armed
  have again: "start (Some ''a'') one_armed = (None, one_armed)" by simp
  from start_when_armed_changes_nothing [of "Some ''a''" one_source "''a''"] first
  have twice: "start (Some ''a'') (snd (start (Some ''a'') one_source))
                 = (None, snd (start (Some ''a'') one_source))" by simp
  from target registered armed again first twice show ?thesis by simp
qed

subsection \<open>C7: armed ids are registered\<close>

text \<open>
  C7. After \<^verbatim>\<open>removeFetcher(id)\<close> the id is to be neither registered nor armed. The code
  breaks this for the empty id outside legacy mode: \<^verbatim>\<open>addFetcher("", config)\<close>
  registers it and \<^verbatim>\<open>getFetcher("")\<close> finds it, but \<^verbatim>\<open>removeFetcher("")\<close> calls
  \<^verbatim>\<open>stop("")\<close>, whose test \<^verbatim>\<open>!targetId\<close> takes the empty id for a missing one and throws
  before the source is deleted; \<^verbatim>\<open>start("")\<close> throws the same way. The source stays
  registered and can be neither started nor removed.
\<close>

theorem removeFetcher_empty_id_throws:
  "getFetcher empty_id_source [] = Some (new_ContentFetcher ex_config)
   \<and> removeFetcher [] empty_id_source = (Some no_id_error, empty_id_source)
   \<and> [] \<in> set (getActiveFetchers (snd (removeFetcher [] empty_id_source)))
   \<and> start (Some []) empty_id_source = (Some no_id_error, empty_id_source)"
  by (simp add: empty_id_source_def addFetcher_def new_ContentScheduler_def empty_scheduler_def
        removeFetcher_def has_def stop_def start_def targetId_def falsy_def
        getActiveFetchers_def getFetcher_def)

text \<open>
  What holds of the code: after any sequence of registry operations on a newly
  constructed scheduler every armed id is a registered id; whenever \<^verbatim>\<open>removeFetcher\<close>
  returns, the id is neither registered nor armed; and it returns for every id that is
  not empty.
\<close>

theorem registry_invariant:
  "set (getActiveSchedulers (run xs (new_ContentScheduler fo io)))
     \<subseteq> set (getActiveFetchers (run xs (new_ContentScheduler fo io)))
   \<and> (fst (removeFetcher i (run xs (new_ContentScheduler fo io))) = None \<longrightarrow>
        i \<notin> set (getActiveFetchers (snd (removeFetcher i (run xs (new_ContentScheduler fo io)))))
        \<and> i \<notin> set (getActiveSchedulers (snd (removeFetcher i (run xs (new_ContentScheduler fo io))))))
   \<and> (i \<noteq> [] \<longrightarrow> fst (removeFetcher i (run xs (new_ContentScheduler fo io))) = None)"
proof -
  let ?s = "run xs (new_ContentScheduler fo io)"
  have inv: "armed_ok ?s" by (simp add: armed_ok_run armed_ok_new)
  have returns: "fst (removeFetcher i ?s) = None" if "i \<noteq> []"
  proof (cases "has (fetchers ?s) i")
    case True
    from stop_Some_removes [OF that, of ?s]
    obtain s' where s': "stop (Some i) ?s = (None, s')" by (cases "stop (Some i) ?s") auto
    with True show ?thesis by (simp add: removeFetcher_def)
  next
    case False
    then show ?thesis by (simp add: removeFetcher_def)
  qed
  have gone: "i \<notin> fst ` set (fetchers (snd (removeFetcher i ?s)))
        \<and> i \<notin> fst ` set (schedulers (snd (removeFetcher i ?s)))"
    if ret: "fst (removeFetcher i ?s) = None"
  proof -
    from armed_ok_removeFetcher [OF inv, of i]
    have after: "armed_ok (snd (removeFetcher i ?s))" .
    have "i \<notin> fst ` set (fetchers (snd (removeFetcher i ?s)))"
    proof (cases "has (fetchers ?s) i")
      case True
      with ret obtain s' where s': "stop (Some i) ?s = (None, s')"
        by (cases "stop (Some i) ?s"; cases "fst (stop (Some i) ?s)")
           (auto simp: removeFetcher_def)
      with True show ?thesis by (simp add: removeFetcher_def keys_delete)
    next
      case False
      then show ?thesis by (simp add: removeFetcher_def has_iff)
    qed
    with after show ?thesis by (auto simp: armed_ok_def)
  qed
  from inv returns gone show ?thesis
    by (simp add: armed_ok_def getActiveFetchers_def getActiveSchedulers_def)
qed

text \<open>The invariant at work: \<^verbatim>\<open>a\<close> is added, started and removed.\<close>

theorem registry_invariant_witness:
  "run [AddFetcher ''a'' ex_config, Start (Some ''a'')] (new_ContentScheduler None None) = one_armed
   \<and> getActiveSchedulers one_armed = [''a'']
   \<and> getActiveFetchers one_armed = [''a'']
   \<and> ''a'' \<noteq> []
   \<and> fst (removeFetcher ''a'' one_armed) = None
   \<and> ''a'' \<notin> set (getActiveFetchers (snd (removeFetcher ''a'' one_armed)))
   \<and> ''a'' \<notin> set (getActiveSchedulers (snd (removeFetcher ''a'' one_armed)))"
proof -
  have reach: "run [AddFetcher ''a'' ex_config, Start (Some ''a'')] (new_ContentScheduler None None)
                 = one_armed"
    by (simp add: one_armed_def one_source_def)
  have keys: "getActiveSchedulers one_armed = [''a'']" "getActiveFetchers one_armed = [''a'']"
    by (simp_all add: getActiveSchedulers_def getActiveFetchers_def one_armed_eq)
  from registry_invariant [of "[AddFetcher ''a'' ex_config, Start (Some ''a'')]" None None "''a''"]
  show ?thesis unfolding reach using keys by simp
qed

subsection \<open>C8: adding a registered id updates its configuration\<close>



subsection \<open>C9: what \<^verbatim>\<open>start\<close> does for an id that is not armed\<close>

text \<open>
  C9, as the code has it. When the id that \<^verbatim>\<open>start\<close> resolves (the id given, or the legacy
  id where none is given in legacy mode) is not empty, is registered and is not armed,
  \<^verbatim>\<open>start\<close> first arms the 24-hour interval and records its handle in the armed map, and
  then launches one sync without awaiting it: when \<^verbatim>\<open>start\<close> returns the sources are as
  they were.
\<close>

theorem start_arms_then_launches:
  assumes "targetId i s = Some t" and "t \<noteq> []" and "map_of (fetchers s) t = Some fetcher"
    and "\<not> has (schedulers s) t"
  shows "fst (start i s) = None
       \<and> trace (snd (start i s))
           = trace s @ [SetInterval (nextTimer s) t TWENTY_FOUR_HOURS, SyncLaunched t]
       \<and> map_of (schedulers (snd (start i s))) t = Some (nextTimer s)
       \<and> timers (snd (start i s)) = timers s @ [nextTimer s]
       \<and> fetchers (snd (start i s)) = fetchers s"
  by (simp add: start_fresh [OF assms] update_conv')

text \<open>The theorem at work: \<^verbatim>\<open>start("a")\<close> on a registry that holds \<^verbatim>\<open>a\<close>.\<close>

theorem start_arms_then_launches_witness:
  "targetId (Some ''a'') one_source = Some ''a''
   \<and> map_of (fetchers one_source) ''a'' = Some (new_ContentFetcher ex_config)
   \<and> \<not> has (schedulers one_source) ''a''
   \<and> fst (start (Some ''a'') one_source) = None
   \<and> trace (snd (start (Some ''a'') one_source))
       = [SetInterval 0 ''a'' 86400000, SyncLaunched ''a'']
   \<and> map_of (schedulers (snd (start (Some ''a'') one_source))) ''a'' = Some 0
   \<and> timers (snd (start (Some ''a'') one_source)) = [0]
   \<and> fetchers (snd (start (Some ''a'') one_source)) = [(''a'', new_ContentFetcher ex_config)]"
proof -
  have target: "targetId (Some ''a'') one_source = Some ''a''"
    by (simp add: targetId_def one_source_eq)
  have id: "''a'' \<noteq> []" by simp
  have registered: "map_of (fetchers one_source) ''a'' = Some (new_ContentFetcher ex_config)"
    by (simp add: one_source_eq)
  have idle: "\<not> has (schedulers one_source) ''a''" by (simp add: has_def one_source_eq)
  have fields: "trace one_source = []" "nextTimer one_source = 0" "timers one_source = []"
    "fetchers one_source = [(''a'', new_ContentFetcher ex_config)]"
    by (simp_all add: one_source_eq)
  from start_arms_then_launches [OF target id registered idle] target registered idle fields
  show ?thesis by (simp add: TWENTY_FOUR_HOURS_def)
qed

text \<open>
  C9 as stated fails: the interval is set before the sync is launched, and when
  \<^verbatim>\<open>start\<close> returns the source still waits for its first sync, although a sync that had
  completed in this world would have cleared the flag.
\<close>

theorem start_arms_then_launches_counterexample:
  "trace (snd (start (Some ''a'') one_source)) = [SetInterval 0 ''a'' 86400000, SyncLaunched ''a'']
   \<and> getFetcher (snd (start (Some ''a'') one_source)) ''a'' = Some (new_ContentFetcher ex_config)
   \<and> isFirstSyncPending (new_ContentFetcher ex_config)
   \<and> \<not> isFirstSyncPending (snd (syncContent nothing_new_world (new_ContentFetcher ex_config)))"
  by (simp add: one_source_eq start_def targetId_def falsy_def has_def TWENTY_FOUR_HOURS_def
        getFetcher_def isFirstSyncPending_def syncContent_def sync_fetch_def
        fetchAllContent_def fetchContent_def fetchPreviouslyPublishedContent_def
        handle_response_def response_ok_def settled_value_def merge_content_def spread_pages_def
        emptyContent_def nothing_new_world_def ex_world_def new_ContentFetcher_def)

subsection \<open>C10: the outer failure of the write stage\<close>

text \<open>
  C10. \<^verbatim>\<open>createFiles\<close> always returns a result. When the loop is left by an exception
  after some items were processed (a \<^verbatim>\<open>null\<close> entry in the page array), the result has
  exactly one error, the one of the outer failure, whatever errors the items before had
  produced, and \<^verbatim>\<open>filesCreated\<close> holds the files written before. The earlier file's
  \<^verbatim>\<open>createFiles\<close> does the same.
\<close>

theorem outer_failure_keeps_files_and_one_error:
  "createFiles w f
       \<lparr>sitemapXml = sitemap, robotTxt = robots, pages = PagesArray (map Some qs @ None # rest)\<rparr>
     = \<lparr>success = False,
        message = ''Failed to create files: '' @ msg_null_property w ''urlPath'',
        filesCreated = filesCreated (createFiles w f (mk_bundle sitemap robots qs)),
        errors = Some [''Failed to create files: '' @ msg_null_property w ''urlPath'']\<rparr>
   \<and> createFiles_earlier w f
       \<lparr>sitemapXml = sitemap, robotTxt = robots, pages = PagesArray (map Some qs @ None # rest)\<rparr>
     = \<lparr>success = False,
        message = ''Failed to create files: '' @ msg_null_property w ''title'',
        filesCreated = filesCreated (createFiles_earlier w f (mk_bundle sitemap robots qs)),
        errors = Some [''Failed to create files: '' @ msg_null_property w ''title'']\<rparr>"
  by (simp add: createFiles_def createFiles_earlier_def createFiles_try_null
        createFiles_result_thrown createFiles_result_files mk_bundle_def)

text \<open>
  The theorem at work: the sitemap cannot be written, the first page is written, the
  second entry is \<^verbatim>\<open>null\<close>. The error of the sitemap is gone from the result, the file of
  the first page is kept.
\<close>

theorem outer_failure_keeps_files_and_one_error_witness:
  "createFiles denied_world (new_ContentFetcher ex_config) null_entry_content
     = \<lparr>success = False,
        message = ''Failed to create files: Cannot read properties of null (reading urlPath)'',
        filesCreated = [''about.html''],
        errors =
          Some [''Failed to create files: Cannot read properties of null (reading urlPath)'']\<rparr>
   \<and> createFiles denied_world (new_ContentFetcher ex_config) (mk_bundle ''<xml/>'' [] [about_page])
       = \<lparr>success = False, message = ''Created 1 files with 1 errors in 7ms'',
          filesCreated = [''about.html''],
          errors = Some [''Failed to create sitemap.xml: EACCES: permission denied'']\<rparr>"
proof -
  let ?f = "new_ContentFetcher ex_config"
  have before: "createFiles denied_world ?f (mk_bundle ''<xml/>'' [] [about_page])
       = \<lparr>success = False, message = ''Created 1 files with 1 errors in 7ms'',
          filesCreated = [''about.html''],
          errors = Some [''Failed to create sitemap.xml: EACCES: permission denied'']\<rparr>"
    by (simp add: createFiles_def createFiles_try_def createFiles_result_def
          write_named_def writeFile_def ensureDirectoryExists_def createPage_def write_page_def
          endsWith_def mk_bundle_def about_page_def denied_world_def ex_defs digit_char_def)
  have msg: "msg_null_property denied_world ''urlPath''
               = ''Cannot read properties of null (reading urlPath)''"
    by (simp add: denied_world_def ex_world_def)
  from outer_failure_keeps_files_and_one_error
         [of denied_world ?f "''<xml/>''" "[]" "[about_page]" "[Some contact_page]"] before msg
  show ?thesis by (simp add: null_entry_content_def)
qed

end
